theory Spec2Isabelle
  imports Complex_Main "HOL-Library.Word" "HOL-Library.Sublist"
begin

section \<open>The cancer prediction service (server.js)\<close>

text \<open>
  The program is one Express application: a multer upload middleware configured with a
  size limit and a MIME-type filter, a function \<^verbatim>\<open>predictClassification\<close> that decodes the
  uploaded buffer, runs the TensorFlow graph model and thresholds the largest score, a
  \<^verbatim>\<open>POST /predict\<close> handler that appends the prediction to \<^verbatim>\<open>predictions.json\<close>, and a
  start-up sequence that loads the model.

  The embedding passes the file \<^verbatim>\<open>predictions.json\<close> as explicit state, returns every
  exception as the \<open>Inl\<close> of a sum, and records what the handler does as an ordered list
  of effects (console output, file writes, the response sent).

  Code outside server.js is taken as follows.
  \<^item> The image decoder and the graph model are parameters: \<open>codec\<close> maps a byte buffer to
    an error message or a tensor, \<open>model\<close> maps a tensor to an error message or the scores.
  \<^item> \<^verbatim>\<open>uuidv4()\<close>, \<^verbatim>\<open>new Date().toISOString()\<close>, the fate of \<^verbatim>\<open>fs.writeFileSync\<close> and
    the number of arguments the engine lets a call take are inputs of each request,
    collected in the record \<open>env\<close>.
  \<^item> multer, \<^verbatim>\<open>JSON.parse\<close>, \<^verbatim>\<open>JSON.stringify\<close>, \<^verbatim>\<open>fs\<close> and \<^verbatim>\<open>app.listen\<close> follow their
    documentation; each definition says what it takes from there.
\<close>

subsection \<open>JavaScript numbers and the scores\<close>

text \<open>
  A score is a JavaScript number. The finite ones are rationals here (every float is
  one); \<^verbatim>\<open>Math.max\<close>, \<^verbatim>\<open>*\<close> and \<^verbatim>\<open>>\<close> treat \<^verbatim>\<open>NaN\<close> and the infinities as ECMAScript
  does. The product \<^verbatim>\<open>x * 100\<close> is exact here; IEEE rounding is monotone and 50 is a
  float, so rounding does not change the outcome of the comparison with 50 for a Float32
  score.
\<close>

datatype js_number = NaN | NegInfinity | PosInfinity | Finite rat

fun js_max :: "js_number \<Rightarrow> js_number \<Rightarrow> js_number" where
  "js_max NaN _ = NaN"
| "js_max _ NaN = NaN"
| "js_max PosInfinity _ = PosInfinity"
| "js_max _ PosInfinity = PosInfinity"
| "js_max NegInfinity b = b"
| "js_max a NegInfinity = a"
| "js_max (Finite x) (Finite y) = Finite (max x y)"

text \<open>
  \<^verbatim>\<open>Math.max(...score)\<close> spreads the scores as the arguments of one call. The engine
  bounds the number of arguments of a call by the stack that is left (some 120,000 in a
  Node process with the default stack); with more scores the call throws a RangeError.
  server.js does not fix the bound: it is the parameter \<open>limit\<close>. When the call is made,
  the result is \<^verbatim>\<open>-Infinity\<close> with no argument and \<^verbatim>\<open>NaN\<close> if any argument is.
\<close>

definition Math_max :: "nat \<Rightarrow> js_number list \<Rightarrow> string + js_number" where
  "Math_max limit score =
     (if limit < length score then Inl ''Maximum call stack size exceeded''
      else Inr (foldl js_max NegInfinity score))"

fun js_times :: "js_number \<Rightarrow> rat \<Rightarrow> js_number" where
  "js_times NaN _ = NaN"
| "js_times (Finite x) k = Finite (x * k)"
| "js_times PosInfinity k = (if 0 < k then PosInfinity else if k < 0 then NegInfinity else NaN)"
| "js_times NegInfinity k = (if 0 < k then NegInfinity else if k < 0 then PosInfinity else NaN)"

fun js_greater :: "js_number \<Rightarrow> rat \<Rightarrow> bool" where
  "js_greater NaN _ = False"
| "js_greater NegInfinity _ = False"
| "js_greater PosInfinity _ = True"
| "js_greater (Finite x) k = (k < x)"

text \<open>Lines 56 to 64 of \<^verbatim>\<open>predictClassification\<close>: from the scores to label and suggestion.\<close>

definition confidenceScore :: "nat \<Rightarrow> js_number list \<Rightarrow> string + js_number" where
  "confidenceScore limit score =
     (case Math_max limit score of
        Inl msg \<Rightarrow> Inl msg
      | Inr m \<Rightarrow> Inr (js_times m 100))"

definition isCancer :: "js_number \<Rightarrow> bool" where
  "isCancer confidence = js_greater confidence 50"

definition classify :: "nat \<Rightarrow> js_number list \<Rightarrow> string + (string \<times> string)" where
  "classify limit score =
     (case confidenceScore limit score of
        Inl msg \<Rightarrow> Inl msg
      | Inr confidence \<Rightarrow>
          (let label = (if isCancer confidence then ''Cancer'' else ''Non-cancer'');
               suggestion = (if isCancer confidence then ''Segera periksa ke dokter!''
                             else ''Penyakit kanker tidak terdeteksi.'')
           in Inr (label, suggestion)))"

subsection \<open>Decoding and inference\<close>

type_synonym byte = "8 word"

text \<open>
  The body of the \<^verbatim>\<open>try\<close> of \<^verbatim>\<open>predictClassification\<close>. The buffer goes to the library as
  it is: the codec stands for
  \<^verbatim>\<open>tf.node.decodeJpeg(image).resizeNearestNeighbor([224, 224]).expandDims().toFloat()\<close>,
  whatever that does with the bytes it is given. The model stands for
  \<^verbatim>\<open>model.predict(tensor)\<close> followed by \<^verbatim>\<open>await prediction.data()\<close>. The variable \<^verbatim>\<open>model\<close>
  is \<^verbatim>\<open>undefined\<close> until \<^verbatim>\<open>loadModel\<close> has assigned it: calling \<^verbatim>\<open>predict\<close> on it throws a
  TypeError. Lines 56 to 64 follow, and may throw as well.
\<close>

definition predict_body ::
  "(byte list \<Rightarrow> string + 't) \<Rightarrow> ('t \<Rightarrow> string + js_number list) option \<Rightarrow> nat \<Rightarrow> byte list
     \<Rightarrow> string + (string \<times> string)" where
  "predict_body codec model limit img =
     (case codec img of
        Inl msg \<Rightarrow> Inl msg
      | Inr tensor \<Rightarrow>
          (case model of
             None \<Rightarrow> Inl ''Cannot read properties of undefined (reading predict)''
           | Some m \<Rightarrow>
               (case m tensor of
                  Inl msg \<Rightarrow> Inl msg
                | Inr score \<Rightarrow> classify limit score)))"

text \<open>The \<^verbatim>\<open>catch\<close> wraps the message of whatever was thrown and throws again.\<close>

definition predictClassification ::
  "(byte list \<Rightarrow> string + 't) \<Rightarrow> ('t \<Rightarrow> string + js_number list) option \<Rightarrow> nat \<Rightarrow> byte list
     \<Rightarrow> string + (string \<times> string)" where
  "predictClassification codec model limit img =
     (case predict_body codec model limit img of
        Inl msg \<Rightarrow> Inl (''Terjadi kesalahan input: '' @ msg)
      | Inr r \<Rightarrow> Inr r)"

subsection \<open>The upload middleware\<close>

text \<open>
  A request is the list of its file parts, in the order of the body (a request that is
  not multipart, or has text fields only, has none). multer's memory storage hands the
  bytes of an accepted file over as \<^verbatim>\<open>req.file.buffer\<close>.
\<close>

record file_part =
  fieldname :: string
  mimetype :: string
  buffer :: "byte list"

record request =
  files :: "file_part list"

datatype multer_code = LIMIT_FILE_SIZE | LIMIT_UNEXPECTED_FILE

datatype upload_error = MulterError multer_code | Error string

fun multer_message :: "multer_code \<Rightarrow> string" where
  "multer_message LIMIT_FILE_SIZE = ''File too large''"
| "multer_message LIMIT_UNEXPECTED_FILE = ''Unexpected field''"

definition fileSize :: nat where
  "fileSize = 1000000"

definition allowedTypes :: "string list" where
  "allowedTypes = [''image/jpeg'', ''image/png'']"

text \<open>The \<^verbatim>\<open>fileFilter\<close> of the configuration: it accepts the file or fails, nothing else.\<close>

definition fileFilter :: "file_part \<Rightarrow> string + bool" where
  "fileFilter file =
     (if mimetype file \<in> set allowedTypes then Inr True
      else Inl ''Invalid file type. Only JPEG and PNG are allowed.'')"

text \<open>
  \<^verbatim>\<open>multer({limits, fileFilter}).single(name)\<close>, as multer behaves. The parts are
  taken in order and the first error ends the upload. For each file part: a field other
  than \<open>name\<close>, or a second file, is \<^verbatim>\<open>LIMIT_UNEXPECTED_FILE\<close>; then the file filter runs,
  on the part's headers, before any byte of the file is stored; then the bytes are
  stored, and a file whose size reaches \<^verbatim>\<open>limits.fileSize\<close> is \<^verbatim>\<open>LIMIT_FILE_SIZE\<close> (the
  parser stops a file at the limit, so only a file strictly below it passes). \<open>left\<close> is the
  number of files the field may still take (one for \<^verbatim>\<open>single\<close>), \<open>acc\<close> the file accepted
  so far.
\<close>

fun single :: "string \<Rightarrow> nat \<Rightarrow> file_part option \<Rightarrow> file_part list
    \<Rightarrow> upload_error + file_part option" where
  "single name left acc [] = Inr acc"
| "single name left acc (p # ps) =
     (if fieldname p \<noteq> name \<or> left = 0 then Inl (MulterError LIMIT_UNEXPECTED_FILE)
      else case fileFilter p of
             Inl msg \<Rightarrow> Inl (Error msg)
           | Inr False \<Rightarrow> single name (left - 1) acc ps
           | Inr True \<Rightarrow>
               (if fileSize \<le> length (buffer p) then Inl (MulterError LIMIT_FILE_SIZE)
                else single name (left - 1) (Some p) ps))"

definition upload :: "request \<Rightarrow> upload_error + file_part option" where
  "upload req = single ''image'' 1 None (files req)"

subsection \<open>JSON values and the file predictions.json\<close>

datatype json =
    JNull
  | JBool bool
  | JNumber rat
  | JString string
  | JArray "json list"
  | JObject "(string \<times> json) list"

text \<open>
  The text of the file is kept up to \<^verbatim>\<open>JSON.parse\<close>: the empty string, a text that
  \<^verbatim>\<open>JSON.parse\<close> accepts (with the value it denotes), or any other text. The file itself
  may be absent.
\<close>

datatype file_text = Blank | Json json | Garbage

type_synonym file_state = "file_text option"

record response =
  code :: nat
  body :: json

text \<open>What the program does to the outside, in the order it does it.\<close>

datatype effect =
    ConsoleLog string
  | ConsoleLogDoc string json
  | ConsoleError string string
  | WriteFile file_text
  | Send response
  | Listening string
  | ModelAssigned
  | Exit nat

text \<open>\<^verbatim>\<open>fs.readFileSync('predictions.json', 'utf-8')\<close> throws when there is no such file.\<close>

definition readFileSync :: "file_state \<Rightarrow> string + file_text" where
  "readFileSync f =
     (case f of
        None \<Rightarrow> Inl ''ENOENT: no such file or directory, open predictions.json''
      | Some t \<Rightarrow> Inr t)"

text \<open>\<^verbatim>\<open>text || '[]'\<close>: only the empty string is falsy.\<close>

definition or_empty_array :: "file_text \<Rightarrow> file_text" where
  "or_empty_array t = (case t of Blank \<Rightarrow> Json (JArray []) | _ \<Rightarrow> t)"

definition JSON_parse :: "file_text \<Rightarrow> string + json" where
  "JSON_parse t =
     (case t of
        Blank \<Rightarrow> Inl ''Unexpected end of JSON input''
      | Json v \<Rightarrow> Inr v
      | Garbage \<Rightarrow> Inl ''Unexpected token in JSON'')"

text \<open>\<^verbatim>\<open>predictions.push(predictionDoc)\<close>: only an array has \<^verbatim>\<open>push\<close>.\<close>

definition push :: "json \<Rightarrow> json \<Rightarrow> string + json" where
  "push predictions doc =
     (case predictions of
        JArray xs \<Rightarrow> Inr (JArray (xs @ [doc]))
      | _ \<Rightarrow> Inl ''predictions.push is not a function'')"

text \<open>
  \<^verbatim>\<open>fs.writeFileSync(path, JSON.stringify(predictions, null, 2))\<close> opens the file with
  flag \<^verbatim>\<open>w\<close>, which creates or truncates it, and then writes the text. It is not atomic:
  it either writes the whole text, or fails to open the file (which is then untouched),
  or fails after opening, leaving the file empty or holding a proper prefix of the text
  (not JSON: the closing bracket is missing). Which of these happens is an input.
\<close>

datatype write_outcome = Written | OpenFailed | FailedEmpty | FailedPartial

fun writeFileSync ::
  "write_outcome \<Rightarrow> file_state \<Rightarrow> json \<Rightarrow> (string + unit) \<times> effect list \<times> file_state" where
  "writeFileSync Written f v = (Inr (), [WriteFile (Json v)], Some (Json v))"
| "writeFileSync OpenFailed f v =
     (Inl ''EACCES: permission denied, open predictions.json'', [], f)"
| "writeFileSync FailedEmpty f v =
     (Inl ''ENOSPC: no space left on device, write'', [WriteFile Blank], Some Blank)"
| "writeFileSync FailedPartial f v =
     (Inl ''ENOSPC: no space left on device, write'', [WriteFile Garbage], Some Garbage)"

text \<open>The records of the log: the elements of the array the file holds, if it holds one.\<close>

fun log_records :: "file_state \<Rightarrow> json list" where
  "log_records (Some (Json (JArray xs))) = xs"
| "log_records _ = []"

subsection \<open>The handler of POST /predict\<close>

record env =
  uuid :: string
  now :: string
  writing :: write_outcome
  spread_limit :: nat

definition fail :: "nat \<Rightarrow> string \<Rightarrow> response" where
  "fail c msg = \<lparr>code = c, body = JObject [(''status'', JString ''fail''), (''message'', JString msg)]\<rparr>"

definition predictionDoc :: "env \<Rightarrow> string \<Rightarrow> string \<Rightarrow> json" where
  "predictionDoc e label suggestion =
     JObject [(''id'', JString (uuid e)), (''result'', JString label),
              (''suggestion'', JString suggestion), (''createdAt'', JString (now e))]"

definition success :: "json \<Rightarrow> response" where
  "success doc =
     \<lparr>code = 201,
      body = JObject [(''status'', JString ''success''),
                      (''message'', JString ''Model is predicted successfully''),
                      (''data'', doc)]\<rparr>"

text \<open>The \<^verbatim>\<open>catch\<close> of the handler (lines 119 to 125).\<close>

definition prediction_error :: "string \<Rightarrow> effect list" where
  "prediction_error msg =
     [ConsoleError ''Prediction error:'' msg,
      Send (fail 400 ''Terjadi kesalahan dalam melakukan prediksi'')]"

text \<open>
  Lines 108 and 109: read the whole log, parse it, push the record. Nothing is written
  yet.
\<close>

definition read_and_push :: "file_state \<Rightarrow> json \<Rightarrow> string + json" where
  "read_and_push f doc =
     (case readFileSync f of
        Inl msg \<Rightarrow> Inl msg
      | Inr text \<Rightarrow>
          (case JSON_parse (or_empty_array text) of
             Inl msg \<Rightarrow> Inl msg
           | Inr predictions \<Rightarrow> push predictions doc))"

text \<open>
  Lines 108 to 118: the whole log is written back, and only then the handler logs the
  record and answers 201. Whatever is thrown on the way goes to the \<^verbatim>\<open>catch\<close>.
\<close>

definition save_and_respond :: "env \<Rightarrow> file_state \<Rightarrow> json \<Rightarrow> effect list \<times> file_state" where
  "save_and_respond e f doc =
     (case read_and_push f doc of
        Inl msg \<Rightarrow> (prediction_error msg, f)
      | Inr predictions \<Rightarrow>
          (case writeFileSync (writing e) f predictions of
             (Inl msg, ws, f') \<Rightarrow> (ws @ prediction_error msg, f')
           | (Inr _, ws, f') \<Rightarrow>
               (ws @ [ConsoleLogDoc ''Prediction saved locally:'' doc, Send (success doc)], f')))"

text \<open>The callback given to \<^verbatim>\<open>upload\<close> (lines 72 to 126).\<close>

definition predict_route ::
  "(byte list \<Rightarrow> string + 't) \<Rightarrow> ('t \<Rightarrow> string + js_number list) option \<Rightarrow> env
     \<Rightarrow> file_state \<Rightarrow> request \<Rightarrow> effect list \<times> file_state" where
  "predict_route codec model e f req =
     (case upload req of
        Inl (MulterError c) \<Rightarrow>
          ([ConsoleError ''Multer error:'' (multer_message c),
            Send (fail 413 ''Payload content length greater than maximum allowed: 1000000'')], f)
      | Inl (Error msg) \<Rightarrow> ([ConsoleError ''Error:'' msg, Send (fail 400 msg)], f)
      | Inr None \<Rightarrow>
          ([ConsoleError ''No file uploaded'' [], Send (fail 400 ''No file uploaded'')], f)
      | Inr (Some file) \<Rightarrow>
          (case predictClassification codec model (spread_limit e) (buffer file) of
             Inl msg \<Rightarrow> (prediction_error msg, f)
           | Inr (label, suggestion) \<Rightarrow> save_and_respond e f (predictionDoc e label suggestion)))"

text \<open>The responses sent, in order.\<close>

fun sent :: "effect list \<Rightarrow> response list" where
  "sent [] = []"
| "sent (Send r # es) = r # sent es"
| "sent (_ # es) = sent es"

text \<open>
  The requests a process serves, one after the other, each with its own \<open>env\<close>; the
  file goes from one to the next.
\<close>

fun serve ::
  "(byte list \<Rightarrow> string + 't) \<Rightarrow> ('t \<Rightarrow> string + js_number list) option \<Rightarrow> file_state
     \<Rightarrow> (env \<times> request) list \<Rightarrow> file_state" where
  "serve codec model f [] = f"
| "serve codec model f ((e, req) # rest) =
     serve codec model (snd (predict_route codec model e f req)) rest"

text \<open>
  The record a request stores when its upload is accepted and \<^verbatim>\<open>predictClassification\<close>
  returns; none otherwise.
\<close>

definition inferred ::
  "(byte list \<Rightarrow> string + 't) \<Rightarrow> ('t \<Rightarrow> string + js_number list) option \<Rightarrow> env \<times> request
     \<Rightarrow> json list" where
  "inferred codec model er =
     (case upload (snd er) of
        Inr (Some file) \<Rightarrow>
          (case predictClassification codec model (spread_limit (fst er)) (buffer file) of
             Inr (label, suggestion) \<Rightarrow> [predictionDoc (fst er) label suggestion]
           | Inl _ \<Rightarrow> [])
      | _ \<Rightarrow> [])"

subsection \<open>Start-up\<close>

text \<open>
  \<^verbatim>\<open>process.env.PORT || 3000\<close>: an unset or empty variable gives 3000. The port is kept
  as the text that \<^verbatim>\<open>console.log\<close> prints.
\<close>

definition PORT :: "string option \<Rightarrow> string" where
  "PORT v = (case v of None \<Rightarrow> ''3000'' | Some s \<Rightarrow> if s = [] then ''3000'' else s)"

text \<open>
  \<^verbatim>\<open>loadModel\<close>: \<open>loaded\<close> is what \<^verbatim>\<open>tf.loadGraphModel\<close> gives, an error message or the
  model. The result is the effects and the value of the variable \<^verbatim>\<open>model\<close> afterwards.
\<close>

definition loadModel :: "string + 'm \<Rightarrow> effect list \<times> 'm option" where
  "loadModel loaded =
     (case loaded of
        Inr m \<Rightarrow> ([ConsoleLog ''Loading model...'', ModelAssigned,
                   ConsoleLog ''Model loaded successfully''], Some m)
      | Inl msg \<Rightarrow> ([ConsoleLog ''Loading model...'', ConsoleError ''Error loading model:'' msg,
                     Exit 1], None))"

text \<open>
  \<^verbatim>\<open>app.listen(PORT, callback)\<close>: the callback runs once the server is listening on the
  port, so the effects start with the binding; the callback awaits \<^verbatim>\<open>loadModel\<close>, and
  \<^verbatim>\<open>process.exit(1)\<close> ends everything.
\<close>

definition startup :: "string option \<Rightarrow> string + 'm \<Rightarrow> effect list \<times> 'm option" where
  "startup v loaded =
     (case loadModel loaded of
        (es, Some m) \<Rightarrow> (Listening (PORT v) # es @ [ConsoleLog (''Server is running on port '' @ PORT v)], Some m)
      | (es, None) \<Rightarrow> (Listening (PORT v) # es, None))"

text \<open>Whether \<open>a\<close> happens before the first \<open>b\<close> of a list of effects.\<close>

definition happens_before :: "effect \<Rightarrow> effect \<Rightarrow> effect list \<Rightarrow> bool" where
  "happens_before a b es = (a \<in> set (takeWhile (\<lambda>x. x \<noteq> b) es))"

subsection \<open>Auxiliary definitions\<close>

text \<open>Whether a single score, taken alone, puts the confidence above 50.\<close>

definition above :: "js_number \<Rightarrow> bool" where
  "above s = js_greater (js_times s 100) 50"

text \<open>
  Concrete inputs for the examples below: the first bytes of a PNG file; an environment
  whose engine takes 120,000 arguments; buffers of \<open>n\<close> bytes that begin as a JPEG and as
  a PNG file do (\<open>n\<close> at least 4 and 8); a codec that decodes the buffers that begin as a
  JPEG or a PNG file and no other (the tensor is only the length here); a model whose
  largest score is \<open>s\<close> (for \<open>s\<close> not negative) and one that gives \<open>n\<close> scores; a request
  with one file part; the record the environment gives.
\<close>

definition png_signature :: "byte list" where
  "png_signature = [0x89, 0x50, 0x4E, 0x47, 0x0D, 0x0A, 0x1A, 0x0A]"

definition sample_env :: "write_outcome \<Rightarrow> env" where
  "sample_env w =
     \<lparr>uuid = ''6f1c2a9e-0d4b-4c57-9a3e-2b7d5e8f0a11'', now = ''2024-05-17T08:30:00.000Z'',
      writing = w, spread_limit = 120000\<rparr>"

definition jpeg_bytes :: "nat \<Rightarrow> byte list" where
  "jpeg_bytes n = [0xFF, 0xD8, 0xFF, 0xE0] @ replicate (n - 4) 0"

definition png_bytes :: "nat \<Rightarrow> byte list" where
  "png_bytes n = png_signature @ replicate (n - 8) 0"

definition sample_codec :: "byte list \<Rightarrow> string + nat" where
  "sample_codec b =
     (if prefix [0xFF, 0xD8] b \<or> prefix png_signature b then Inr (length b)
      else Inl ''Invalid JPEG data or crop window'')"

definition sample_model :: "rat \<Rightarrow> nat \<Rightarrow> string + js_number list" where
  "sample_model s t = Inr [Finite (s / 2), Finite s]"

definition wide_model :: "nat \<Rightarrow> nat \<Rightarrow> string + js_number list" where
  "wide_model n t = Inr (replicate n (Finite (4/5)))"

definition upload_of :: "string \<Rightarrow> string \<Rightarrow> byte list \<Rightarrow> request" where
  "upload_of field type bytes = \<lparr>files = [\<lparr>fieldname = field, mimetype = type, buffer = bytes\<rparr>]\<rparr>"

definition sample_doc :: "string \<Rightarrow> string \<Rightarrow> json" where
  "sample_doc label suggestion =
     JObject [(''id'', JString ''6f1c2a9e-0d4b-4c57-9a3e-2b7d5e8f0a11''), (''result'', JString label),
              (''suggestion'', JString suggestion), (''createdAt'', JString ''2024-05-17T08:30:00.000Z'')]"

section \<open>Properties\<close>

lemmas classify_defs = classify_def confidenceScore_def isCancer_def Math_max_def

lemmas route_defs =
  predict_route_def upload_def save_and_respond_def read_and_push_def readFileSync_def
  or_empty_array_def JSON_parse_def push_def predictClassification_def predict_body_def
  fileFilter_def allowedTypes_def fileSize_def prediction_error_def

lemmas sample_defs =
  sample_env_def jpeg_bytes_def png_bytes_def sample_codec_def sample_model_def wide_model_def
  upload_of_def sample_doc_def png_signature_def predictionDoc_def success_def fail_def

subsection \<open>The classification policy\<close>

lemma foldl_js_max_NaN: "foldl js_max NaN score = NaN"
  by (induction score) simp_all

lemma js_max_NaN_right: "js_max a NaN = NaN"
  by (cases a) simp_all

lemma foldl_js_max_has_NaN: "NaN \<in> set score \<Longrightarrow> foldl js_max a score = NaN"
  by (induction score arbitrary: a) (auto simp: js_max_NaN_right foldl_js_max_NaN)

lemma above_js_max: "a \<noteq> NaN \<Longrightarrow> b \<noteq> NaN \<Longrightarrow> above (js_max a b) = (above a \<or> above b)"
  by (cases a; cases b) (auto simp: above_def max_def)

lemma above_cases: "above s \<longleftrightarrow> s = PosInfinity \<or> (\<exists>x. s = Finite x \<and> 50 < x * 100)"
  by (cases s) (auto simp: above_def)

lemma js_max_not_NaN: "a \<noteq> NaN \<Longrightarrow> b \<noteq> NaN \<Longrightarrow> js_max a b \<noteq> NaN"
  by (cases a; cases b) auto

lemma above_foldl:
  "a \<noteq> NaN \<Longrightarrow> NaN \<notin> set score \<Longrightarrow>
     above (foldl js_max a score) = (above a \<or> (\<exists>s. s \<in> set score \<and> above s))"
  by (induction score arbitrary: a) (auto simp: above_js_max js_max_not_NaN)

lemma foldl_js_max_Finite:
  "foldl js_max (Finite a) (map Finite xs) = Finite (Max (insert a (set xs)))"
proof (induction xs arbitrary: a)
  case Nil
  then show ?case by simp
next
  case (Cons x xs)
  have "Max (insert (max a x) (set xs)) = Max (insert a (insert x (set xs)))"
    by (metis List.finite_set Max_insert finite.insertI insert_not_empty max.assoc Max_singleton)
  with Cons show ?case by simp
qed

lemma largest_Finite:
  "xs \<noteq> [] \<Longrightarrow> foldl js_max NegInfinity (map Finite xs) = Finite (Max (set xs))"
  by (cases xs) (simp_all add: foldl_js_max_Finite)

lemma above_largest_iff:
  "above (foldl js_max NegInfinity score) \<longleftrightarrow>
     NaN \<notin> set score \<and>
     (PosInfinity \<in> set score \<or> (\<exists>x. Finite x \<in> set score \<and> 50 < x * 100))"
proof (cases "NaN \<in> set score")
  case True
  then show ?thesis
    by (simp add: foldl_js_max_has_NaN above_def)
next
  case False
  have "above (foldl js_max NegInfinity score) = (\<exists>s. s \<in> set score \<and> above s)"
    using False above_foldl [of NegInfinity score] by (simp add: above_def)
  also have "\<dots> = (PosInfinity \<in> set score \<or> (\<exists>x. Finite x \<in> set score \<and> 50 < x * 100))"
    unfolding above_cases by blast
  finally show ?thesis using False by simp
qed

lemma classify_within_limit:
  "length score \<le> limit \<Longrightarrow>
     classify limit score =
       Inr (if above (foldl js_max NegInfinity score)
            then (''Cancer'', ''Segera periksa ke dokter!'')
            else (''Non-cancer'', ''Penyakit kanker tidak terdeteksi.''))"
  by (simp add: classify_defs above_def)

lemma classify_beyond_limit:
  "limit < length score \<Longrightarrow> classify limit score = Inl ''Maximum call stack size exceeded''"
  by (simp add: classify_defs)

text \<open>
  C2, as stated, fails: the classification is not defined on every score vector. With
  125,000 scores of 0.8 each, more than the engine takes as arguments, \<^verbatim>\<open>Math.max\<close> throws
  and there is no label, although the largest score times 100 exceeds 50.
\<close>

theorem long_score_vector_counterexample:
  "classify 120000 (replicate 125000 (Finite (4/5))) = Inl ''Maximum call stack size exceeded''
   \<and> (50::rat) < 4/5 * 100"
  by (simp add: classify_defs)

text \<open>
  C2, amended. The classification is a function of the score vector (and of the number
  of arguments the engine takes). For every score vector that is not longer than that
  number, the result is the pair Cancer / urgent-care suggestion exactly when no score
  is \<^verbatim>\<open>NaN\<close> and some score times 100 exceeds 50, and the pair Non-cancer / not-detected
  suggestion otherwise; for a non-empty vector of finite scores that is: exactly when the
  maximum times 100 is strictly greater than 50. A confidence of exactly 50 gives
  Non-cancer. For a longer vector \<^verbatim>\<open>Math.max\<close> throws and there is no result.
\<close>

theorem classify_threshold:
  "(length score \<le> limit \<longrightarrow>
      classify limit score =
        Inr (if NaN \<notin> set score \<and>
                (PosInfinity \<in> set score \<or> (\<exists>x. Finite x \<in> set score \<and> 50 < x * 100))
             then (''Cancer'', ''Segera periksa ke dokter!'')
             else (''Non-cancer'', ''Penyakit kanker tidak terdeteksi.'')))
   \<and> (xs \<noteq> [] \<and> length xs \<le> limit \<longrightarrow>
        classify limit (map Finite xs) =
          Inr (if 50 < Max (set xs) * 100 then (''Cancer'', ''Segera periksa ke dokter!'')
               else (''Non-cancer'', ''Penyakit kanker tidak terdeteksi.'')))
   \<and> (confidenceScore limit score = Inr (Finite 50) \<longrightarrow>
        classify limit score = Inr (''Non-cancer'', ''Penyakit kanker tidak terdeteksi.''))
   \<and> (limit < length score \<longrightarrow>
        classify limit score = Inl ''Maximum call stack size exceeded'')"
proof (intro conjI impI)
  assume "length score \<le> limit"
  then show "classify limit score =
        Inr (if NaN \<notin> set score \<and>
                (PosInfinity \<in> set score \<or> (\<exists>x. Finite x \<in> set score \<and> 50 < x * 100))
             then (''Cancer'', ''Segera periksa ke dokter!'')
             else (''Non-cancer'', ''Penyakit kanker tidak terdeteksi.''))"
    unfolding above_largest_iff [symmetric] by (rule classify_within_limit)
next
  assume xs: "xs \<noteq> [] \<and> length xs \<le> limit"
  then have "above (foldl js_max NegInfinity (map Finite xs)) = (50 < Max (set xs) * 100)"
    by (simp add: largest_Finite above_def)
  with xs show "classify limit (map Finite xs) =
          Inr (if 50 < Max (set xs) * 100 then (''Cancer'', ''Segera periksa ke dokter!'')
               else (''Non-cancer'', ''Penyakit kanker tidak terdeteksi.''))"
    by (simp add: classify_within_limit)
next
  assume "confidenceScore limit score = Inr (Finite 50)"
  then show "classify limit score = Inr (''Non-cancer'', ''Penyakit kanker tidak terdeteksi.'')"
    by (simp add: classify_def isCancer_def)
next
  assume "limit < length score"
  then show "classify limit score = Inl ''Maximum call stack size exceeded''"
    by (rule classify_beyond_limit)
qed

theorem classify_threshold_witness:
  "confidenceScore 120000 [Finite (1/2), Finite (3/10)] = Inr (Finite 50)
   \<and> classify 120000 [Finite (1/2), Finite (3/10)]
       = Inr (''Non-cancer'', ''Penyakit kanker tidak terdeteksi.'')
   \<and> classify 120000 [Finite (1/5), Finite (4/5)] = Inr (''Cancer'', ''Segera periksa ke dokter!'')
   \<and> classify 120000 [] = Inr (''Non-cancer'', ''Penyakit kanker tidak terdeteksi.'')
   \<and> classify 120000 [Finite (4/5), NaN] = Inr (''Non-cancer'', ''Penyakit kanker tidak terdeteksi.'')
   \<and> classify 1 [Finite (1/5), Finite (4/5)] = Inl ''Maximum call stack size exceeded''"
proof -
  have c: "confidenceScore 120000 [Finite (1/2), Finite (3/10)] = Inr (Finite 50)"
    by (simp add: confidenceScore_def Math_max_def)
  have a: "classify 120000 [Finite (1/2), Finite (3/10)]
      = Inr (''Non-cancer'', ''Penyakit kanker tidak terdeteksi.'')"
    using classify_threshold [of "[Finite (1/2), Finite (3/10)]" 120000 "[]"] c by blast
  have b: "classify 120000 (map Finite [1/5, 4/5]) = Inr (''Cancer'', ''Segera periksa ke dokter!'')"
    using classify_threshold [of "[]" 120000 "[1/5, 4/5]"] by simp
  have d: "classify 120000 [] = Inr (''Non-cancer'', ''Penyakit kanker tidak terdeteksi.'')"
    using classify_threshold [of "[]" 120000 "[]"] by simp
  have n: "classify 120000 [Finite (4/5), NaN] = Inr (''Non-cancer'', ''Penyakit kanker tidak terdeteksi.'')"
    using classify_threshold [of "[Finite (4/5), NaN]" 120000 "[]"] by simp
  have l: "classify 1 [Finite (1/5), Finite (4/5)] = Inl ''Maximum call stack size exceeded''"
    using classify_threshold [of "[Finite (1/5), Finite (4/5)]" 1 "[]"] by simp
  from a c b d n l show ?thesis by simp
qed

subsection \<open>A successful prediction\<close>







subsection \<open>PNG uploads\<close>




subsection \<open>Failures before the log is touched\<close>

text \<open>
  C9. When the upload is accepted and decoding or inference throws, with whatever
  message \<open>detail\<close>, the handler sends 400 with status fail and the fixed message
  \<^verbatim>\<open>Terjadi kesalahan dalam melakukan prediksi\<close>: the response does not depend on
  \<open>detail\<close>, which goes to the console only. The log is not touched.
\<close>

theorem prediction_failure_is_generic:
  assumes "upload req = Inr (Some part)"
    and "predict_body codec model (spread_limit e) (buffer part) = Inl detail"
  shows "predict_route codec model e f req =
           ([ConsoleError ''Prediction error:'' (''Terjadi kesalahan input: '' @ detail),
             Send \<lparr>code = 400,
                   body = JObject [(''status'', JString ''fail''),
                     (''message'', JString ''Terjadi kesalahan dalam melakukan prediksi'')]\<rparr>], f)"
  using assms by (simp add: predict_route_def predictClassification_def prediction_error_def fail_def)

theorem prediction_failure_is_generic_witness:
  "predict_route sample_codec (Some (\<lambda>t. Inl ''Error: /srv/ml/model.json: shape mismatch at node 17''))
       (sample_env Written) (Some (Json (JArray []))) (upload_of ''image'' ''image/jpeg'' (jpeg_bytes 500))
     = ([ConsoleError ''Prediction error:''
           ''Terjadi kesalahan input: Error: /srv/ml/model.json: shape mismatch at node 17'',
         Send \<lparr>code = 400,
               body = JObject [(''status'', JString ''fail''),
                 (''message'', JString ''Terjadi kesalahan dalam melakukan prediksi'')]\<rparr>],
        Some (Json (JArray [])))"
  using prediction_failure_is_generic
    [where req = "upload_of ''image'' ''image/jpeg'' (jpeg_bytes 500)"
       and part = "\<lparr>fieldname = ''image'', mimetype = ''image/jpeg'', buffer = jpeg_bytes 500\<rparr>"
       and codec = sample_codec
       and model = "Some (\<lambda>t. Inl ''Error: /srv/ml/model.json: shape mismatch at node 17'')"
       and detail = "''Error: /srv/ml/model.json: shape mismatch at node 17''"
       and e = "sample_env Written" and f = "Some (Json (JArray []))"]
  by (simp add: upload_def upload_of_def jpeg_bytes_def fileFilter_def allowedTypes_def fileSize_def
      predict_body_def sample_codec_def)

subsection \<open>Rejected uploads\<close>

text \<open>
  C7, as stated, fails: an upload of 2,000,000 bytes whose declared type is \<^verbatim>\<open>image/gif\<close>
  is rejected by the file filter, which runs before the bytes are counted, and the
  answer is 400 with the filter's message, not 413.
\<close>

theorem oversized_gif_counterexample:
  "sent (fst (predict_route sample_codec (Some (sample_model (4/5))) (sample_env Written)
        (Some (Json (JArray []))) (upload_of ''image'' ''image/gif'' (replicate 2000000 0))))
     = [fail 400 ''Invalid file type. Only JPEG and PNG are allowed.'']
   \<and> code (fail 400 ''Invalid file type. Only JPEG and PNG are allowed.'') \<noteq> 413
   \<and> 1000000 < length (buffer (hd (files (upload_of ''image'' ''image/gif'' (replicate 2000000 0)))))"
  by (simp add: route_defs sample_defs)

text \<open>
  C7, amended. When the first file part of a request exceeds 1,000,000 bytes and is not
  rejected by the file filter (its field is not \<^verbatim>\<open>image\<close>, or its type is \<^verbatim>\<open>image/jpeg\<close> or
  \<^verbatim>\<open>image/png\<close>), the handler sends 413 with status fail and the message
  \<^verbatim>\<open>Payload content length greater than maximum allowed: 1000000\<close>, and the log is
  unchanged.
\<close>

theorem oversized_upload_413:
  assumes "files req = p # ps" and "1000000 < length (buffer p)"
    and "fieldname p \<noteq> ''image'' \<or> mimetype p \<in> set allowedTypes"
  shows "sent (fst (predict_route codec model e f req))
           = [\<lparr>code = 413,
               body = JObject [(''status'', JString ''fail''),
                 (''message'', JString ''Payload content length greater than maximum allowed: 1000000'')]\<rparr>]
         \<and> snd (predict_route codec model e f req) = f"
proof -
  have "\<exists>c. upload req = Inl (MulterError c)"
    using assms by (auto simp: upload_def fileFilter_def fileSize_def)
  then show ?thesis
    by (auto simp: predict_route_def fail_def)
qed

theorem oversized_upload_413_witness:
  "sent (fst (predict_route sample_codec (Some (sample_model (4/5))) (sample_env Written)
        (Some (Json (JArray []))) (upload_of ''image'' ''image/jpeg'' (jpeg_bytes 2000000))))
     = [\<lparr>code = 413,
         body = JObject [(''status'', JString ''fail''),
           (''message'', JString ''Payload content length greater than maximum allowed: 1000000'')]\<rparr>]
   \<and> snd (predict_route sample_codec (Some (sample_model (4/5))) (sample_env Written)
        (Some (Json (JArray []))) (upload_of ''image'' ''image/jpeg'' (jpeg_bytes 2000000)))
     = Some (Json (JArray []))"
  using oversized_upload_413
    [where req = "upload_of ''image'' ''image/jpeg'' (jpeg_bytes 2000000)"
       and p = "\<lparr>fieldname = ''image'', mimetype = ''image/jpeg'', buffer = jpeg_bytes 2000000\<rparr>"
       and ps = "[]" and codec = sample_codec and model = "Some (sample_model (4/5))"
       and e = "sample_env Written" and f = "Some (Json (JArray []))"]
  by (simp add: upload_of_def jpeg_bytes_def allowedTypes_def)

text \<open>
  C8, as stated, fails: a request whose only file part is in a field named \<^verbatim>\<open>photo\<close>
  carries no file field named \<^verbatim>\<open>image\<close>; multer raises \<^verbatim>\<open>LIMIT_UNEXPECTED_FILE\<close>, a
  MulterError, and the handler answers every MulterError with 413 and the payload
  message.
\<close>

theorem other_field_counterexample:
  "sent (fst (predict_route sample_codec (Some (sample_model (4/5))) (sample_env Written)
        (Some (Json (JArray []))) (upload_of ''photo'' ''image/jpeg'' (jpeg_bytes 500))))
     = [fail 413 ''Payload content length greater than maximum allowed: 1000000'']
   \<and> fail 413 ''Payload content length greater than maximum allowed: 1000000''
       \<noteq> fail 400 ''No file uploaded''
   \<and> ''image'' \<notin> set (map fieldname (files (upload_of ''photo'' ''image/jpeg'' (jpeg_bytes 500))))"
  by (simp add: route_defs sample_defs)

text \<open>
  C8, amended. A request that carries no file part at all is answered 400 with status
  fail and the message \<^verbatim>\<open>No file uploaded\<close>, and the log is unchanged.
\<close>

theorem no_file_part_400:
  "predict_route codec model e f \<lparr>files = []\<rparr>
     = ([ConsoleError ''No file uploaded'' [],
         Send \<lparr>code = 400,
               body = JObject [(''status'', JString ''fail''),
                               (''message'', JString ''No file uploaded'')]\<rparr>], f)"
  by (simp add: predict_route_def upload_def fail_def)

subsection \<open>The log file\<close>

text \<open>
  C5. With no file \<^verbatim>\<open>predictions.json\<close>, a valid JPEG upload on which inference succeeds
  is answered 400 and no file is created: \<^verbatim>\<open>readFileSync\<close> throws before the default
  \<^verbatim>\<open>|| '[]'\<close> is reached. With an empty file the same request is answered 201 and the
  log holds exactly the new record. The claim expects the second behaviour in both cases.
\<close>

theorem missing_log_file_is_an_error:
  "predict_route sample_codec (Some (sample_model (4/5))) (sample_env Written) None
       (upload_of ''image'' ''image/jpeg'' (jpeg_bytes 500))
     = ([ConsoleError ''Prediction error:''
           ''ENOENT: no such file or directory, open predictions.json'',
         Send (fail 400 ''Terjadi kesalahan dalam melakukan prediksi'')], None)
   \<and> predict_route sample_codec (Some (sample_model (4/5))) (sample_env Written) (Some Blank)
       (upload_of ''image'' ''image/jpeg'' (jpeg_bytes 500))
     = ([WriteFile (Json (JArray [sample_doc ''Cancer'' ''Segera periksa ke dokter!''])),
         ConsoleLogDoc ''Prediction saved locally:'' (sample_doc ''Cancer'' ''Segera periksa ke dokter!''),
         Send (success (sample_doc ''Cancer'' ''Segera periksa ke dokter!''))],
        Some (Json (JArray [sample_doc ''Cancer'' ''Segera periksa ke dokter!''])))"
  by (simp add: route_defs sample_defs classify_defs)

text \<open>
  C10, as stated, fails: inference succeeds, the log holds one earlier record, and
  \<^verbatim>\<open>writeFileSync\<close> fails after it has opened (and so truncated) the file. The answer is
  400 with the generic message, but the file is now empty: the log has changed.
\<close>

theorem failed_write_truncates_counterexample:
  "sent (fst (predict_route sample_codec (Some (sample_model (4/5))) (sample_env FailedEmpty)
        (Some (Json (JArray [JString ''earlier record'']))) (upload_of ''image'' ''image/jpeg'' (jpeg_bytes 500))))
     = [fail 400 ''Terjadi kesalahan dalam melakukan prediksi'']
   \<and> snd (predict_route sample_codec (Some (sample_model (4/5))) (sample_env FailedEmpty)
        (Some (Json (JArray [JString ''earlier record'']))) (upload_of ''image'' ''image/jpeg'' (jpeg_bytes 500)))
     = Some Blank
   \<and> Some Blank \<noteq> Some (Json (JArray [JString ''earlier record'']))
   \<and> predictClassification sample_codec (Some (sample_model (4/5))) 120000 (jpeg_bytes 500)
     = Inr (''Cancer'', ''Segera periksa ke dokter!'')"
  by (simp add: route_defs sample_defs classify_defs)

lemma save_and_respond_failure:
  assumes "isl (read_and_push f doc) \<or> writing e \<noteq> Written"
  shows "sent (fst (save_and_respond e f doc)) = [fail 400 ''Terjadi kesalahan dalam melakukan prediksi'']"
    and "isl (read_and_push f doc) \<or> writing e = OpenFailed \<Longrightarrow> snd (save_and_respond e f doc) = f"
    and "\<not> isl (read_and_push f doc) \<Longrightarrow> writing e = FailedEmpty \<Longrightarrow> snd (save_and_respond e f doc) = Some Blank"
    and "\<not> isl (read_and_push f doc) \<Longrightarrow> writing e = FailedPartial \<Longrightarrow> snd (save_and_respond e f doc) = Some Garbage"
  using assms
  by (cases "read_and_push f doc"; cases "writing e";
      simp add: save_and_respond_def prediction_error_def)+

text \<open>
  C10, amended. When inference succeeds and reading, parsing, pushing or writing the
  log throws, exactly one response is sent: 400 with status fail and the generic
  prediction-failure message (so never the 201 envelope). The file is unchanged when the
  failure is in reading, parsing or pushing, or when the file cannot be opened for
  writing; when the write fails after the file was opened, the file is left empty or
  with a partial text.
\<close>

theorem persistence_failure_fails_closed:
  assumes "upload req = Inr (Some part)"
    and "predictClassification codec model (spread_limit e) (buffer part) = Inr (label, suggestion)"
    and "isl (read_and_push f (predictionDoc e label suggestion)) \<or> writing e \<noteq> Written"
  shows "sent (fst (predict_route codec model e f req))
           = [\<lparr>code = 400,
               body = JObject [(''status'', JString ''fail''),
                 (''message'', JString ''Terjadi kesalahan dalam melakukan prediksi'')]\<rparr>]
         \<and> (isl (read_and_push f (predictionDoc e label suggestion)) \<or> writing e = OpenFailed
              \<longrightarrow> snd (predict_route codec model e f req) = f)
         \<and> (\<not> isl (read_and_push f (predictionDoc e label suggestion)) \<and> writing e = FailedEmpty
              \<longrightarrow> snd (predict_route codec model e f req) = Some Blank)
         \<and> (\<not> isl (read_and_push f (predictionDoc e label suggestion)) \<and> writing e = FailedPartial
              \<longrightarrow> snd (predict_route codec model e f req) = Some Garbage)"
proof -
  have route: "predict_route codec model e f req
      = save_and_respond e f (predictionDoc e label suggestion)"
    using assms(1,2) by (simp add: predict_route_def)
  show ?thesis
    unfolding route using save_and_respond_failure [OF assms(3)] by (simp add: fail_def)
qed

theorem persistence_failure_fails_closed_witness:
  "sent (fst (predict_route sample_codec (Some (sample_model (4/5))) (sample_env OpenFailed)
        (Some (Json (JArray [JString ''earlier record'']))) (upload_of ''image'' ''image/jpeg'' (jpeg_bytes 500))))
     = [\<lparr>code = 400,
         body = JObject [(''status'', JString ''fail''),
           (''message'', JString ''Terjadi kesalahan dalam melakukan prediksi'')]\<rparr>]
   \<and> snd (predict_route sample_codec (Some (sample_model (4/5))) (sample_env OpenFailed)
        (Some (Json (JArray [JString ''earlier record'']))) (upload_of ''image'' ''image/jpeg'' (jpeg_bytes 500)))
     = Some (Json (JArray [JString ''earlier record'']))
   \<and> snd (predict_route sample_codec (Some (sample_model (4/5))) (sample_env Written)
        (Some Garbage) (upload_of ''image'' ''image/jpeg'' (jpeg_bytes 500)))
     = Some Garbage
   \<and> snd (predict_route sample_codec (Some (sample_model (4/5))) (sample_env FailedPartial)
        (Some (Json (JArray [JString ''earlier record'']))) (upload_of ''image'' ''image/jpeg'' (jpeg_bytes 500)))
     = Some Garbage"
proof -
  let ?req = "upload_of ''image'' ''image/jpeg'' (jpeg_bytes 500)"
  let ?p = "\<lparr>fieldname = ''image'', mimetype = ''image/jpeg'', buffer = jpeg_bytes 500\<rparr>"
  let ?old = "Some (Json (JArray [JString ''earlier record'']))"
  let ?model = "Some (sample_model (4/5))"
  have up: "upload ?req = Inr (Some ?p)"
    by (simp add: upload_def upload_of_def jpeg_bytes_def fileFilter_def allowedTypes_def fileSize_def)
  have pc: "predictClassification sample_codec ?model (spread_limit (sample_env w)) (buffer ?p)
      = Inr (''Cancer'', ''Segera periksa ke dokter!'')" for w
    by (simp add: route_defs sample_defs classify_defs)
  have a: "sent (fst (predict_route sample_codec ?model (sample_env OpenFailed) ?old ?req))
        = [\<lparr>code = 400, body = JObject [(''status'', JString ''fail''),
             (''message'', JString ''Terjadi kesalahan dalam melakukan prediksi'')]\<rparr>]
      \<and> snd (predict_route sample_codec ?model (sample_env OpenFailed) ?old ?req) = ?old"
    using persistence_failure_fails_closed
      [where codec = sample_codec and model = ?model and e = "sample_env OpenFailed" and f = ?old,
        OF up pc]
    by (simp add: sample_env_def)
  have b: "snd (predict_route sample_codec ?model (sample_env Written) (Some Garbage) ?req)
        = Some Garbage"
    using persistence_failure_fails_closed
      [where codec = sample_codec and model = ?model and e = "sample_env Written" and f = "Some Garbage",
        OF up pc]
    by (simp add: sample_env_def read_and_push_def readFileSync_def or_empty_array_def JSON_parse_def)
  have c: "snd (predict_route sample_codec ?model (sample_env FailedPartial) ?old ?req)
        = Some Garbage"
    using persistence_failure_fails_closed
      [where codec = sample_codec and model = ?model and e = "sample_env FailedPartial" and f = ?old,
        OF up pc]
    by (simp add: sample_env_def read_and_push_def readFileSync_def or_empty_array_def JSON_parse_def push_def)
  from a b c show ?thesis by simp
qed

lemma route_unchanged:
  "inferred codec model (e, req) = [] \<Longrightarrow> snd (predict_route codec model e f req) = f"
  by (auto simp: inferred_def predict_route_def split: sum.splits upload_error.splits option.splits)

lemma save_records:
  "subseq (log_records (snd (save_and_respond e f doc))) (log_records f @ [doc])"
proof (cases "read_and_push f doc")
  case (Inl msg)
  then show ?thesis by (simp add: save_and_respond_def subseq_rev_drop_many)
next
  case (Inr predictions)
  then have p: "predictions = JArray (log_records f @ [doc])"
    by (auto simp: read_and_push_def readFileSync_def or_empty_array_def JSON_parse_def push_def
        split: option.splits file_text.splits json.splits)
  show ?thesis
    using Inr by (cases "writing e") (simp_all add: save_and_respond_def p subseq_rev_drop_many)
qed

lemma route_records:
  "subseq (log_records (snd (predict_route codec model e f req)))
     (log_records f @ inferred codec model (e, req))"
  by (auto simp: inferred_def predict_route_def save_records
      split: sum.splits upload_error.splits option.splits)

lemma serve_records:
  "subseq (log_records (serve codec model f reqs))
     (log_records f @ concat (map (inferred codec model) reqs))"
proof (induction reqs arbitrary: f)
  case Nil
  then show ?case by simp
next
  case (Cons r reqs)
  obtain e req where r: "r = (e, req)" by (cases r)
  let ?f' = "snd (predict_route codec model e f req)"
  have "subseq (log_records (serve codec model ?f' reqs))
      (log_records ?f' @ concat (map (inferred codec model) reqs))"
    by (rule Cons.IH)
  moreover have "subseq (log_records ?f' @ concat (map (inferred codec model) reqs))
      ((log_records f @ inferred codec model (e, req)) @ concat (map (inferred codec model) reqs))"
    by (intro list_emb_append_mono route_records subseq_order.refl)
  ultimately show ?case
    unfolding r by (simp add: subseq_order.trans)
qed

text \<open>
  C6. A request whose upload is rejected or whose decoding or inference fails leaves the
  file as it was. The records of the log after a request are a subsequence of the
  records before it followed by the record of that request's inference, if it had one;
  so, over any sequence of requests, the records of the final log are a subsequence of
  the initial records followed by the records of the successful inferences, in order:
  each stored record belongs to one successful inference of its own.
\<close>

theorem records_come_from_inferences:
  "(inferred codec model (e, req) = [] \<longrightarrow> snd (predict_route codec model e f req) = f)
   \<and> subseq (log_records (snd (predict_route codec model e f req)))
        (log_records f @ inferred codec model (e, req))
   \<and> subseq (log_records (serve codec model f reqs))
        (log_records f @ concat (map (inferred codec model) reqs))"
  using route_unchanged route_records serve_records by blast

theorem records_come_from_inferences_witness:
  "snd (predict_route sample_codec (Some (sample_model (4/5))) (sample_env Written)
        (Some (Json (JArray [JString ''earlier record''])))
        (upload_of ''image'' ''image/gif'' (jpeg_bytes 500)))
     = Some (Json (JArray [JString ''earlier record'']))
   \<and> subseq
        (log_records (serve sample_codec (Some (sample_model (4/5)))
           (Some (Json (JArray [JString ''earlier record''])))
           [(sample_env Written, upload_of ''image'' ''image/gif'' (jpeg_bytes 500)),
            (sample_env Written, upload_of ''image'' ''image/jpeg'' (jpeg_bytes 500)),
            (sample_env Written, upload_of ''image'' ''image/jpeg'' [0x00, 0x01, 0x02, 0x03]),
            (sample_env Written, \<lparr>files = []\<rparr>)]))
        [JString ''earlier record'', sample_doc ''Cancer'' ''Segera periksa ke dokter!'']"
proof -
  let ?model = "Some (sample_model (4/5))"
  let ?old = "Some (Json (JArray [JString ''earlier record'']))"
  let ?gif = "(sample_env Written, upload_of ''image'' ''image/gif'' (jpeg_bytes 500))"
  let ?jpeg = "(sample_env Written, upload_of ''image'' ''image/jpeg'' (jpeg_bytes 500))"
  let ?bad = "(sample_env Written, upload_of ''image'' ''image/jpeg'' [0x00, 0x01, 0x02, 0x03])"
  let ?none = "(sample_env Written, \<lparr>files = []\<rparr>)"
  have gif: "inferred sample_codec ?model ?gif = []"
    by (simp add: inferred_def route_defs sample_defs)
  have bad: "inferred sample_codec ?model ?bad = []"
    by (simp add: inferred_def route_defs sample_defs)
  have none: "inferred sample_codec ?model ?none = []"
    by (simp add: inferred_def route_defs)
  have jpeg: "inferred sample_codec ?model ?jpeg = [sample_doc ''Cancer'' ''Segera periksa ke dokter!'']"
    by (simp add: inferred_def route_defs sample_defs classify_defs)
  have all: "(inferred sample_codec ?model ?gif = [] \<longrightarrow>
        snd (predict_route sample_codec ?model (sample_env Written) ?old
          (upload_of ''image'' ''image/gif'' (jpeg_bytes 500))) = ?old)
      \<and> subseq (log_records (serve sample_codec ?model ?old [?gif, ?jpeg, ?bad, ?none]))
          (log_records ?old @ concat (map (inferred sample_codec ?model) [?gif, ?jpeg, ?bad, ?none]))"
    using records_come_from_inferences
      [where codec = sample_codec and model = ?model and e = "sample_env Written"
         and req = "upload_of ''image'' ''image/gif'' (jpeg_bytes 500)" and f = ?old
         and reqs = "[?gif, ?jpeg, ?bad, ?none]"]
    by blast
  have a: "snd (predict_route sample_codec ?model (sample_env Written) ?old
      (upload_of ''image'' ''image/gif'' (jpeg_bytes 500))) = ?old"
    using all gif by blast
  have "log_records ?old @ concat (map (inferred sample_codec ?model) [?gif, ?jpeg, ?bad, ?none])
      = [JString ''earlier record'', sample_doc ''Cancer'' ''Segera periksa ke dokter!'']"
    unfolding list.map concat.simps gif bad none jpeg by simp
  with all have b: "subseq (log_records (serve sample_codec ?model ?old [?gif, ?jpeg, ?bad, ?none]))
      [JString ''earlier record'', sample_doc ''Cancer'' ''Segera periksa ke dokter!'']"
    by metis
  from a b show ?thesis by (rule conjI)
qed

subsection \<open>Start-up\<close>

text \<open>
  C4, as stated, fails: the callback of \<^verbatim>\<open>app.listen\<close> runs once the port is bound, and
  only then calls \<^verbatim>\<open>loadModel\<close>. With a model that loads, the model is not assigned before
  the server listens; with a model that fails to load, the server listens before the
  process exits.
\<close>

theorem bind_precedes_load_counterexample:
  "\<not> happens_before ModelAssigned (Listening ''3000'') (fst (startup None (Inr ())))
   \<and> Listening ''3000'' \<in> set (fst (startup None (Inr ())))
   \<and> happens_before (Listening ''3000'') (Exit 1) (fst (startup None (Inl ''ENOENT: ../ml/model.json'' :: string + unit)))"
  by (simp add: happens_before_def startup_def loadModel_def PORT_def)

text \<open>
  C4, amended. The server binds the configured port first and loads the model
  afterwards. If loading succeeds the model is assigned and \<^verbatim>\<open>Server is running\<close> is
  logged; if it fails, the process exits with status 1, after the port was bound, with
  no model. A \<^verbatim>\<open>/predict\<close> request handled while no model is assigned is answered by
  exactly one response, a failure envelope with status 400 or 413, never 201, and
  leaves the log unchanged.
\<close>

theorem startup_binds_then_loads:
  "startup v (Inr m)
     = ([Listening (PORT v), ConsoleLog ''Loading model...'', ModelAssigned,
         ConsoleLog ''Model loaded successfully'',
         ConsoleLog (''Server is running on port '' @ PORT v)], Some m)
   \<and> startup v (Inl msg)
     = ([Listening (PORT v), ConsoleLog ''Loading model...'',
         ConsoleError ''Error loading model:'' msg, Exit 1], None)
   \<and> (\<exists>c reply. sent (fst (predict_route codec None e f req))
         = [\<lparr>code = c, body = JObject [(''status'', JString ''fail''), (''message'', JString reply)]\<rparr>]
       \<and> (c = 400 \<or> c = 413))
   \<and> 201 \<notin> set (map code (sent (fst (predict_route codec None e f req))))
   \<and> snd (predict_route codec None e f req) = f"
proof -
  have pc: "\<exists>detail. predictClassification codec None limit img = Inl detail" for limit img
    by (simp add: predictClassification_def predict_body_def split: sum.splits)
  have one: "\<exists>c reply. sent (fst (predict_route codec None e f req)) = [fail c reply]
      \<and> (c = 400 \<or> c = 413)"
  proof (cases "upload req")
    case (Inl err)
    then show ?thesis
      by (cases err) (auto simp: predict_route_def)
  next
    case (Inr part)
    show ?thesis
    proof (cases part)
      case None
      with Inr show ?thesis by (auto simp: predict_route_def)
    next
      case (Some p)
      obtain detail where "predictClassification codec None (spread_limit e) (buffer p) = Inl detail"
        using pc by blast
      with Inr Some show ?thesis
        by (auto simp: predict_route_def prediction_error_def)
    qed
  qed
  then obtain c reply where r: "sent (fst (predict_route codec None e f req)) = [fail c reply]"
      and c: "c = 400 \<or> c = 413"
    by blast
  have "predictClassification codec None limit img \<noteq> Inr r" for limit img r
    using pc [of limit img] by auto
  then have "inferred codec None (e, req) = []"
    by (auto simp: inferred_def split: sum.splits option.splits)
  then have unchanged: "snd (predict_route codec None e f req) = f"
    by (rule route_unchanged)
  have no201: "201 \<notin> set (map code (sent (fst (predict_route codec None e f req))))"
    using r c by (auto simp: fail_def)
  have shape: "\<exists>c reply. sent (fst (predict_route codec None e f req))
         = [\<lparr>code = c, body = JObject [(''status'', JString ''fail''), (''message'', JString reply)]\<rparr>]
       \<and> (c = 400 \<or> c = 413)"
    using r c unfolding fail_def by blast
  from shape no201 unchanged show ?thesis
    by (simp add: startup_def loadModel_def)
qed

end
